theory Spec2Isabelle
  imports Complex_Main
begin

section \<open>Values\<close>

text \<open>
  JavaScript numbers are IEEE doubles. They are idealised here as real numbers: no rounding,
  and the three values that are not real numbers (\<open>undefined\<close> read from beyond the end of an
  array, \<open>NaN\<close>, and the infinities of a division by zero) are not elements of a matrix.
  Where a computation would produce one of them, the model stops with \<open>NonReal\<close>.

  The only recursive function of the program is \<open>makeRotationMatrix\<close>. Every function that
  can reach it takes a bound \<open>stack\<close> on the depth of nested calls still available; a call that
  would need a deeper nesting ends with \<open>StackExhausted\<close>. A call returns a value iff some
  bound is large enough for it to return that value.
\<close>

datatype js_error = StackExhausted | NonReal

text \<open>
  An assignment \<open>a[i] = v\<close>. JavaScript overwrites an existing element, appends when \<open>i\<close> is the
  length of the array, and otherwise grows the array leaving holes that read as \<open>undefined\<close>.
\<close>

definition setIndex :: "real list \<Rightarrow> nat \<Rightarrow> real \<Rightarrow> js_error + real list" where
  "setIndex a i v =
     (if i < length a then Inr (a[i := v])
      else if i = length a then Inr (a @ [v])
      else Inl NonReal)"

section \<open>Matrix builders\<close>

definition makeIdentityMatrix :: "real list" where
  "makeIdentityMatrix =
     (let myMatrix = [1, 0, 0,
                      0, 1, 0,
                      0, 0, 1]
      in myMatrix)"

text \<open>
  \<open>makeRotationMatrix(thetaInDegrees)\<close>. The argument is \<open>None\<close> when the caller passes none
  (the parameter is then \<open>undefined\<close>, and \<open>Math.cos(undefined)\<close> is \<open>NaN\<close>). The first
  statement calls \<open>makeRotationMatrix()\<close> itself, without an argument. The angle reaches
  \<open>Math.cos\<close> and \<open>Math.sin\<close> as it was passed in.
\<close>

fun makeRotationMatrix :: "nat \<Rightarrow> real option \<Rightarrow> js_error + real list" where
  "makeRotationMatrix 0 thetaInDegrees = Inl StackExhausted"
| "makeRotationMatrix (Suc stack) thetaInDegrees =
     (case makeRotationMatrix stack None of
        Inl e \<Rightarrow> Inl e
      | Inr myMatrix \<Rightarrow>
          (case thetaInDegrees of
             None \<Rightarrow> Inl NonReal
           | Some theta \<Rightarrow>
               (case setIndex myMatrix 0 (cos theta) of
                  Inl e \<Rightarrow> Inl e
                | Inr myMatrix \<Rightarrow>
               (case setIndex myMatrix 1 (sin theta) of
                  Inl e \<Rightarrow> Inl e
                | Inr myMatrix \<Rightarrow>
               (case setIndex myMatrix 3 (- (sin theta)) of
                  Inl e \<Rightarrow> Inl e
                | Inr myMatrix \<Rightarrow>
               setIndex myMatrix 4 (cos theta))))))"

definition makeTranslationMatrix :: "nat \<Rightarrow> real \<Rightarrow> real \<Rightarrow> js_error + real list" where
  "makeTranslationMatrix stack tx ty =
     (case makeRotationMatrix stack None of
        Inl e \<Rightarrow> Inl e
      | Inr myMatrix \<Rightarrow>
          (case setIndex myMatrix 6 tx of
             Inl e \<Rightarrow> Inl e
           | Inr myMatrix \<Rightarrow> setIndex myMatrix 7 ty))"

definition makeScaleMatrix :: "nat \<Rightarrow> real \<Rightarrow> real \<Rightarrow> js_error + real list" where
  "makeScaleMatrix stack sx sy =
     (case makeRotationMatrix stack None of
        Inl e \<Rightarrow> Inl e
      | Inr myMatrix \<Rightarrow>
          (case setIndex myMatrix 0 sx of
             Inl e \<Rightarrow> Inl e
           | Inr myMatrix \<Rightarrow> setIndex myMatrix 4 sy))"

section \<open>Matrix composer\<close>

text \<open>
  \<open>multiplyMatrices(M1, M2)\<close>. The source fills a new array \<open>M3\<close> of nine zeros, one index at a
  time, and returns it; it assigns to nothing else. Both operands are read up to index 8: a
  shorter operand reads \<open>undefined\<close> there and the array returned has \<open>NaN\<close> entries.
\<close>

definition multiplyMatrices :: "real list \<Rightarrow> real list \<Rightarrow> js_error + real list" where
  "multiplyMatrices M1 M2 =
     (if length M1 < 9 \<or> length M2 < 9 then Inl NonReal
      else
        let M3 = [0, 0, 0,
                  0, 0, 0,
                  0, 0, 0];
            M3 = M3[0 := ((M1 ! 0 * M2 ! 0) + (M1 ! 3 * M2 ! 1) + (M1 ! 6 * M2 ! 2))];
            M3 = M3[1 := ((M1 ! 1 * M2 ! 0) + (M1 ! 4 * M2 ! 1) + (M1 ! 7 * M2 ! 2))];
            M3 = M3[2 := ((M1 ! 2 * M2 ! 0) + (M1 ! 5 * M2 ! 1) + (M1 ! 8 * M2 ! 2))];
            M3 = M3[3 := ((M1 ! 0 * M2 ! 3) + (M1 ! 3 * M2 ! 4) + (M1 ! 6 * M2 ! 5))];
            M3 = M3[4 := ((M1 ! 1 * M2 ! 3) + (M1 ! 4 * M2 ! 4) + (M1 ! 7 * M2 ! 5))];
            M3 = M3[5 := ((M1 ! 2 * M2 ! 3) + (M1 ! 5 * M2 ! 4) + (M1 ! 8 * M2 ! 5))];
            M3 = M3[6 := ((M1 ! 0 * M2 ! 6) + (M1 ! 3 * M2 ! 7) + (M1 ! 6 * M2 ! 8))];
            M3 = M3[7 := ((M1 ! 1 * M2 ! 6) + (M1 ! 4 * M2 ! 7) + (M1 ! 7 * M2 ! 8))];
            M3 = M3[8 := ((M1 ! 2 * M2 ! 6) + (M1 ! 5 * M2 ! 7) + (M1 ! 8 * M2 ! 8))]
        in Inr M3)"

text \<open>
  The product as the specification words it: the entry of column \<open>c\<close> and row \<open>r\<close>, at flat
  index \<open>3c+r\<close>, is the sum over \<open>k\<close> of \<open>M1[3k+r] * M2[3c+k]\<close>.
\<close>

definition product_entry :: "real list \<Rightarrow> real list \<Rightarrow> nat \<Rightarrow> nat \<Rightarrow> real" where
  "product_entry M1 M2 c r = (\<Sum>k \<leftarrow> [0, 1, 2]. M1 ! (3 * k + r) * M2 ! (3 * c + k))"

text \<open>An affine matrix (specification, data model): nine elements, bottom row \<open>(0, 0, 1)\<close>.\<close>

definition affine :: "real list \<Rightarrow> bool" where
  "affine A \<longleftrightarrow> length A = 9 \<and> A ! 2 = 0 \<and> A ! 5 = 0 \<and> A ! 8 = 1"

section \<open>Point transformer\<close>

text \<open>
  Modelled from the spec: the class \<open>Point\<close> of \<open>objects/Point\<close> is not among the sources. The
  specification's data model gives a point the two fields \<open>x\<close> and \<open>y\<close>, with an implicit
  homogeneous coordinate 1 (the third argument the source passes to the constructor).
\<close>

record Point =
  point_x :: real
  point_y :: real

text \<open>
  \<open>transformPoint(P, M)\<close>. The source constructs a new point from the coordinates of \<open>P\<close> and
  assigns its \<open>x\<close> and \<open>y\<close>; it reads \<open>M[6]\<close> and \<open>M[7]\<close> only.
\<close>

definition transformPoint :: "Point \<Rightarrow> real list \<Rightarrow> js_error + Point" where
  "transformPoint P A =
     (if length A < 8 then Inl NonReal
      else
        let myPoint = \<lparr>point_x = point_x P, point_y = point_y P\<rparr>;
            myPoint = myPoint\<lparr>point_x := A ! 6 + point_x P\<rparr>;
            myPoint = myPoint\<lparr>point_y := A ! 7 + point_y P\<rparr>
        in Inr myPoint)"

text \<open>
  The homogeneous matrix-vector product as the specification words it:
  \<open>x' = M[0]*P.x + M[3]*P.y + M[6]\<close> and \<open>y' = M[1]*P.x + M[4]*P.y + M[7]\<close>.
\<close>

definition matrix_vector_product :: "Point \<Rightarrow> real list \<Rightarrow> Point" where
  "matrix_vector_product P A =
     \<lparr>point_x = A ! 0 * point_x P + A ! 3 * point_y P + A ! 6,
      point_y = A ! 1 * point_x P + A ! 4 * point_y P + A ! 7\<rparr>"

section \<open>Shapes\<close>

text \<open>
  Modelled from the spec: the class \<open>Shape\<close> of \<open>objects/Shape\<close> and its enumeration
  \<open>SHAPE_TYPE\<close> are not among the sources. The fields are those of the specification's shape
  interface. \<open>CIRCLE\<close>, \<open>LINE\<close> and \<open>TRIANGLE\<close> are the members the render loop names;
  \<open>OTHER\<close> is any other value of \<open>shape.type\<close>. The vertex buffer and the colour are opaque
  objects, known by a number. The result of \<open>computeCentroid()\<close> is the field
  \<open>shape_centroid\<close>.
\<close>

datatype SHAPE_TYPE = CIRCLE | LINE | TRIANGLE | OTHER

record Shape =
  shape_type :: SHAPE_TYPE
  shape_filled :: bool
  shape_buffer :: nat
  shape_color :: nat
  shape_centroid :: Point
  shape_tx :: real
  shape_ty :: real
  shape_sx :: real
  shape_sy :: real
  shape_rotAngle :: real
  shape_rotAroundCenter :: bool
  shape_M :: "real list"

section \<open>Shape transform rebuilder\<close>

text \<open>
  \<open>rebuildTransformationMatrix(shape)\<close> assigns to fields of the object it is given. The model
  returns the object as the call leaves it, and how the call ends: \<open>Inr ()\<close> when it returns,
  \<open>Inl StackExhausted\<close> when no nesting depth is left for a call it makes. The assignments made
  before that point stay made.
\<close>

definition rebuildTransformationMatrix :: "nat \<Rightarrow> Shape \<Rightarrow> Shape \<times> (js_error + unit)" where
  "rebuildTransformationMatrix stack shape =
     (let tempMatrix = shape_M shape;
          shape = shape\<lparr>shape_rotAroundCenter := True\<rparr>
      in case makeTranslationMatrix stack (shape_tx shape) (shape_ty shape) of
           Inl e \<Rightarrow> (shape, Inl e)
         | Inr tranMatrix \<Rightarrow>
      (case makeScaleMatrix stack (shape_sx shape) (shape_sy shape) of
           Inl e \<Rightarrow> (shape, Inl e)
         | Inr scaleMatrix \<Rightarrow>
      (case makeRotationMatrix stack (Some (shape_rotAngle shape)) of
           Inl e \<Rightarrow> (shape, Inl e)
         | Inr rotMatrix \<Rightarrow>
      (case multiplyMatrices (shape_M shape) tranMatrix of
           Inl e \<Rightarrow> (shape, Inl e)
         | Inr newRTM \<Rightarrow>
      (case multiplyMatrices newRTM scaleMatrix of
           Inl e \<Rightarrow> (shape, Inl e)
         | Inr newRTM \<Rightarrow>
      (case multiplyMatrices newRTM rotMatrix of
           Inl e \<Rightarrow> (shape, Inl e)
         | Inr newRTM \<Rightarrow>
      (shape\<lparr>shape_M := newRTM\<rparr>, Inr ())))))))"

section \<open>Projection builder\<close>

text \<open>
  \<open>orthoMatrix(b, t, l, r, n = -1.0, f = 1.0)\<close>. An argument left out is \<open>None\<close> and takes its
  default. A division by zero gives an infinity or \<open>NaN\<close>.
\<close>

definition orthoMatrix ::
  "real \<Rightarrow> real \<Rightarrow> real \<Rightarrow> real \<Rightarrow> real option \<Rightarrow> real option \<Rightarrow> js_error + real list" where
  "orthoMatrix b t l r n_arg f_arg =
     (let n = (case n_arg of None \<Rightarrow> - 1.0 | Some v \<Rightarrow> v);
          f = (case f_arg of None \<Rightarrow> 1.0 | Some v \<Rightarrow> v)
      in if r - l = 0 \<or> t - b = 0 \<or> f - n = 0 then Inl NonReal
         else
           let A1 = 2 / (r - l);
               B1 = 2 / (t - b);
               C1 = - 2 / (f - n);
               A2 = - (r + l) / (r - l);
               B2 = - (t + b) / (t - b);
               C2 = - (f + n) / (f - n);
               M = [A1, 0, 0, 0,
                    0, B1, 0, 0,
                    0, 0, C1, 0,
                    A2, B2, C2, 1]
           in Inr M)"

section \<open>Render loop\<close>

text \<open>
  The calls that \<open>renderScene\<close> and \<open>renderShape\<close> make on the rendering context, the shader
  and the vertex buffers, in the order they are made. \<open>projM\<close> is the module's projection
  matrix, \<open>None\<close> while it is still \<open>null\<close>.
\<close>

datatype gl_call =
    Clear
  | ShaderUse
  | PassToShader nat
  | UProjection "real list option"
  | AttribPointer nat
  | DrawLineLoop nat
  | DrawTriangleFan nat
  | DrawLines nat
  | DrawTriangles nat

definition renderShape :: "real list option \<Rightarrow> Shape \<Rightarrow> nat \<Rightarrow> gl_call list" where
  "renderShape projM shape index =
     [PassToShader (shape_color shape), UProjection projM, AttribPointer (shape_buffer shape)] @
     (if \<not> shape_filled shape \<and> shape_type shape \<noteq> LINE then
        [DrawLineLoop (shape_buffer shape)]
      else
        (case shape_type shape of
           CIRCLE \<Rightarrow> [DrawTriangleFan (shape_buffer shape)]
         | LINE \<Rightarrow> [DrawLines (shape_buffer shape)]
         | TRIANGLE \<Rightarrow> [DrawTriangles (shape_buffer shape)]
         | OTHER \<Rightarrow> []))"

text \<open>\<open>Array.prototype.forEach\<close>: the callback runs on each element and its index, first to last.\<close>

fun forEach :: "('a \<Rightarrow> nat \<Rightarrow> gl_call list) \<Rightarrow> 'a list \<Rightarrow> nat \<Rightarrow> gl_call list" where
  "forEach callback [] index = []"
| "forEach callback (element # rest) index =
     callback element index @ forEach callback rest (Suc index)"

definition renderScene :: "real list option \<Rightarrow> Shape list \<Rightarrow> real \<Rightarrow> gl_call list" where
  "renderScene projM scene time = [Clear, ShaderUse] @ forEach (renderShape projM) scene 0"

text \<open>Whether a call issues a draw primitive on a vertex buffer.\<close>

fun is_draw :: "gl_call \<Rightarrow> bool" where
  "is_draw (DrawLineLoop b) = True"
| "is_draw (DrawTriangleFan b) = True"
| "is_draw (DrawLines b) = True"
| "is_draw (DrawTriangles b) = True"
| "is_draw other = False"

section \<open>A shape to run the rebuilder on\<close>

text \<open>
  The shape of the specification's concrete case: \<open>tx = 10\<close>, \<open>ty = 0\<close>, \<open>sx = sy = 2\<close>,
  \<open>rotAngle = 0\<close>, \<open>rotAroundCenter = false\<close>, centroid \<open>(5, 5)\<close>, and the identity as its
  matrix.
\<close>

definition exampleShape :: Shape where
  "exampleShape =
     \<lparr>shape_type = TRIANGLE, shape_filled = True, shape_buffer = 0, shape_color = 0,
      shape_centroid = \<lparr>point_x = 5, point_y = 5\<rparr>,
      shape_tx = 10, shape_ty = 0, shape_sx = 2, shape_sy = 2,
      shape_rotAngle = 0, shape_rotAroundCenter = False,
      shape_M = makeIdentityMatrix\<rparr>"

section \<open>The builders never return\<close>

lemma makeRotationMatrix_exhausts:
  "makeRotationMatrix stack thetaInDegrees = Inl StackExhausted"
  by (induction stack arbitrary: thetaInDegrees) simp_all

lemma makeTranslationMatrix_exhausts:
  "makeTranslationMatrix stack tx ty = Inl StackExhausted"
  by (simp add: makeTranslationMatrix_def makeRotationMatrix_exhausts)

lemma makeScaleMatrix_exhausts:
  "makeScaleMatrix stack sx sy = Inl StackExhausted"
  by (simp add: makeScaleMatrix_def makeRotationMatrix_exhausts)

text \<open>
  Claim C10. No call of \<open>makeRotationMatrix\<close> returns: whatever the argument and however deep
  the calls may nest, the chain of calls \<open>makeRotationMatrix()\<close> uses up the whole depth, since
  each call starts with another one and none has a base case. \<open>makeTranslationMatrix\<close> and
  \<open>makeScaleMatrix\<close> start with the same call and do not return either.
\<close>

theorem builders_never_return:
  "makeRotationMatrix stack thetaInDegrees = Inl StackExhausted \<and>
   makeTranslationMatrix stack tx ty = Inl StackExhausted \<and>
   makeScaleMatrix stack sx sy = Inl StackExhausted"
  by (simp add: makeRotationMatrix_exhausts makeTranslationMatrix_exhausts
      makeScaleMatrix_exhausts)

text \<open>
  Claim C4 says that \<open>makeRotationMatrix\<close> returns the rotation matrix of its angle, which for
  0 degrees is the identity. The source returns no matrix for 0 degrees, at any nesting depth.
\<close>

theorem makeRotationMatrix_zero_no_matrix:
  "makeRotationMatrix stack (Some 0) = Inl StackExhausted \<and>
   makeRotationMatrix stack (Some 0) \<noteq> Inr makeIdentityMatrix"
  by (simp add: makeRotationMatrix_exhausts)

section \<open>The matrix composer\<close>

lemma multiplyMatrices_entries:
  "length M1 = 9 \<Longrightarrow> length M2 = 9 \<Longrightarrow>
   multiplyMatrices M1 M2 = Inr
     [M1 ! 0 * M2 ! 0 + M1 ! 3 * M2 ! 1 + M1 ! 6 * M2 ! 2,
      M1 ! 1 * M2 ! 0 + M1 ! 4 * M2 ! 1 + M1 ! 7 * M2 ! 2,
      M1 ! 2 * M2 ! 0 + M1 ! 5 * M2 ! 1 + M1 ! 8 * M2 ! 2,
      M1 ! 0 * M2 ! 3 + M1 ! 3 * M2 ! 4 + M1 ! 6 * M2 ! 5,
      M1 ! 1 * M2 ! 3 + M1 ! 4 * M2 ! 4 + M1 ! 7 * M2 ! 5,
      M1 ! 2 * M2 ! 3 + M1 ! 5 * M2 ! 4 + M1 ! 8 * M2 ! 5,
      M1 ! 0 * M2 ! 6 + M1 ! 3 * M2 ! 7 + M1 ! 6 * M2 ! 8,
      M1 ! 1 * M2 ! 6 + M1 ! 4 * M2 ! 7 + M1 ! 7 * M2 ! 8,
      M1 ! 2 * M2 ! 6 + M1 ! 5 * M2 ! 7 + M1 ! 8 * M2 ! 8]"
  by (simp add: multiplyMatrices_def)

lemma all_less_3: "(\<forall>n<3. P n) \<longleftrightarrow> P 0 \<and> P 1 \<and> P (2::nat)"
  by (auto simp add: eval_nat_numeral less_Suc_eq)

text \<open>
  Claim C6. For nine-element operands \<open>multiplyMatrices\<close> returns a nine-element array whose
  entry at flat index \<open>3c+r\<close> is the sum over \<open>k\<close> of \<open>M1[3k+r] * M2[3c+k]\<close>, for every column
  \<open>c\<close> and row \<open>r\<close> below 3. The operands are not written: every assignment of the source is
  to an index of the new array \<open>M3\<close>, and the operands of the model are values.
\<close>

theorem multiplyMatrices_standard_product:
  assumes "length M1 = 9" and "length M2 = 9"
  shows "\<exists>M3. multiplyMatrices M1 M2 = Inr M3 \<and> length M3 = 9 \<and>
           (\<forall>c<3. \<forall>r<3. M3 ! (3 * c + r) = product_entry M1 M2 c r)"
  using assms
  by (simp add: multiplyMatrices_entries product_entry_def all_less_3
      numeral_2_eq_2 [symmetric])

theorem multiplyMatrices_standard_product_witness:
  "length [1, 2, 3, 4, 5, 6, 7, 8, 9 :: real] = 9 \<and>
   length [2, 0, 1, 0, 3, 0, 5, 7, 1 :: real] = 9 \<and>
   (\<exists>M3. multiplyMatrices [1, 2, 3, 4, 5, 6, 7, 8, 9] [2, 0, 1, 0, 3, 0, 5, 7, 1] = Inr M3 \<and>
      length M3 = 9 \<and>
      (\<forall>c<3. \<forall>r<3. M3 ! (3 * c + r) =
         product_entry [1, 2, 3, 4, 5, 6, 7, 8, 9] [2, 0, 1, 0, 3, 0, 5, 7, 1] c r))"
  using multiplyMatrices_standard_product
    [of "[1, 2, 3, 4, 5, 6, 7, 8, 9]" "[2, 0, 1, 0, 3, 0, 5, 7, 1]"]
  by simp

section \<open>The point transformer\<close>

lemma transformPoint_translates:
  "8 \<le> length A \<Longrightarrow>
   transformPoint P A = Inr \<lparr>point_x = A ! 6 + point_x P, point_y = A ! 7 + point_y P\<rparr>"
  by (simp add: transformPoint_def)

text \<open>
  Claim C1 says that \<open>transformPoint\<close> returns the matrix-vector product. For the point
  \<open>(1, 1)\<close> and the matrix that scales by 2, the product is \<open>(2, 2)\<close>; the source returns
  \<open>(1, 1)\<close>, having added the translation column \<open>(0, 0)\<close> and left the linear part out.
\<close>

theorem transformPoint_leaves_out_linear_part:
  "transformPoint \<lparr>point_x = 1, point_y = 1\<rparr> [2, 0, 0, 0, 2, 0, 0, 0, 1] =
     Inr \<lparr>point_x = 1, point_y = 1\<rparr> \<and>
   matrix_vector_product \<lparr>point_x = 1, point_y = 1\<rparr> [2, 0, 0, 0, 2, 0, 0, 0, 1] =
     \<lparr>point_x = 2, point_y = 2\<rparr>"
  by (simp add: transformPoint_def matrix_vector_product_def)

text \<open>
  Claim C5 says that transforming by \<open>A\<close> and then by \<open>B\<close> is transforming by
  \<open>multiplyMatrices(B, A)\<close>. With \<open>A\<close> the translation by \<open>(1, 0)\<close>, \<open>B\<close> the scaling by 2
  (both affine) and the point \<open>(0, 0)\<close>, the source gives \<open>(1, 0)\<close> one way and \<open>(2, 0)\<close>
  the other.
\<close>

theorem transformPoint_composition_differs:
  "affine [1, 0, 0, 0, 1, 0, 1, 0, 1] \<and> affine [2, 0, 0, 0, 2, 0, 0, 0, 1] \<and>
   transformPoint \<lparr>point_x = 0, point_y = 0\<rparr> [1, 0, 0, 0, 1, 0, 1, 0, 1] =
     Inr \<lparr>point_x = 1, point_y = 0\<rparr> \<and>
   transformPoint \<lparr>point_x = 1, point_y = 0\<rparr> [2, 0, 0, 0, 2, 0, 0, 0, 1] =
     Inr \<lparr>point_x = 1, point_y = 0\<rparr> \<and>
   multiplyMatrices [2, 0, 0, 0, 2, 0, 0, 0, 1] [1, 0, 0, 0, 1, 0, 1, 0, 1] =
     Inr [2, 0, 0, 0, 2, 0, 2, 0, 1] \<and>
   transformPoint \<lparr>point_x = 0, point_y = 0\<rparr> [2, 0, 0, 0, 2, 0, 2, 0, 1] =
     Inr \<lparr>point_x = 2, point_y = 0\<rparr>"
  by (simp add: affine_def transformPoint_def multiplyMatrices_def)

section \<open>The shape transform rebuilder\<close>

lemma rebuildTransformationMatrix_exhausts:
  "rebuildTransformationMatrix stack shape =
     (shape\<lparr>shape_rotAroundCenter := True\<rparr>, Inl StackExhausted)"
  by (simp add: rebuildTransformationMatrix_def makeTranslationMatrix_exhausts)

text \<open>
  Claim C2 says that the rebuild recomputes \<open>shape.M\<close> from scratch, so that a second call
  gives the matrix of the first. On the example shape neither of two calls in a row returns, at
  any nesting depth, and the matrix of the shape is after both what it was before the first:
  it is never recomputed.
\<close>

theorem rebuild_twice_recomputes_nothing:
  "snd (rebuildTransformationMatrix stack exampleShape) = Inl StackExhausted \<and>
   snd (rebuildTransformationMatrix stack
          (fst (rebuildTransformationMatrix stack exampleShape))) = Inl StackExhausted \<and>
   shape_M (fst (rebuildTransformationMatrix stack
          (fst (rebuildTransformationMatrix stack exampleShape)))) = shape_M exampleShape"
  by (simp add: rebuildTransformationMatrix_exhausts)

text \<open>
  Claim C3 says that after the rebuild the example shape's matrix sends its centroid \<open>(5, 5)\<close>
  to \<open>(15, 5)\<close>. The call does not return; the matrix it leaves on the shape is the identity
  the shape had, and \<open>transformPoint\<close> sends the centroid to \<open>(5, 5)\<close> by it.
\<close>

theorem rebuild_example_centroid_stays:
  "snd (rebuildTransformationMatrix stack exampleShape) = Inl StackExhausted \<and>
   shape_M (fst (rebuildTransformationMatrix stack exampleShape)) = [1, 0, 0, 0, 1, 0, 0, 0, 1] \<and>
   transformPoint (shape_centroid exampleShape)
       (shape_M (fst (rebuildTransformationMatrix stack exampleShape))) =
     Inr \<lparr>point_x = 5, point_y = 5\<rparr>"
  by (simp add: rebuildTransformationMatrix_exhausts exampleShape_def makeIdentityMatrix_def
      transformPoint_def)

text \<open>
  Claim C8 says that the rebuild leaves \<open>rotAroundCenter\<close> and the other scalar fields as they
  were. The example shape has \<open>rotAroundCenter = false\<close> before the call and \<open>true\<close> after it:
  the second statement of the source assigns \<open>true\<close> to the field.
\<close>

theorem rebuild_sets_rotAroundCenter:
  "\<not> shape_rotAroundCenter exampleShape \<and>
   shape_rotAroundCenter (fst (rebuildTransformationMatrix stack exampleShape))"
  by (simp add: rebuildTransformationMatrix_exhausts exampleShape_def)

section \<open>The projection builder\<close>

text \<open>
  Claim C7. For bounds with \<open>r \<noteq> l\<close>, \<open>t \<noteq> b\<close> and \<open>f \<noteq> n\<close>, \<open>orthoMatrix\<close> returns the
  sixteen numbers \<open>[A1,0,0,0, 0,B1,0,0, 0,0,C1,0, A2,B2,C2,1]\<close> with \<open>A1 = 2/(r-l)\<close>,
  \<open>B1 = 2/(t-b)\<close>, \<open>C1 = -2/(f-n)\<close>, \<open>A2 = -(r+l)/(r-l)\<close>, \<open>B2 = -(t+b)/(t-b)\<close> and
  \<open>C2 = -(f+n)/(f-n)\<close>; with \<open>n\<close> and \<open>f\<close> left out it returns what it returns for \<open>n = -1\<close>
  and \<open>f = 1\<close>; and \<open>orthoMatrix(0, 100, 0, 200)\<close> has \<open>A1 = 0.01\<close>, \<open>B1 = 0.02\<close>, \<open>C1 = -1\<close>,
  \<open>A2 = -1\<close>, \<open>B2 = -1\<close> and \<open>C2 = 0\<close>.
\<close>

theorem orthoMatrix_entries:
  assumes "r \<noteq> l" and "t \<noteq> b" and "f \<noteq> n"
  shows "orthoMatrix b t l r (Some n) (Some f) =
           Inr [2 / (r - l), 0, 0, 0,
                0, 2 / (t - b), 0, 0,
                0, 0, - 2 / (f - n), 0,
                - (r + l) / (r - l), - (t + b) / (t - b), - (f + n) / (f - n), 1] \<and>
         orthoMatrix b t l r None None = orthoMatrix b t l r (Some (- 1)) (Some 1) \<and>
         orthoMatrix 0 100 0 200 None None =
           Inr [0.01, 0, 0, 0,
                0, 0.02, 0, 0,
                0, 0, - 1, 0,
                - 1, - 1, 0, 1]"
  using assms by (simp add: orthoMatrix_def Let_def)

theorem orthoMatrix_entries_witness:
  "(200::real) \<noteq> 0 \<and> (100::real) \<noteq> 0 \<and> (1::real) \<noteq> - 1 \<and>
   orthoMatrix 0 100 0 200 (Some (- 1)) (Some 1) =
     Inr [2 / (200 - 0), 0, 0, 0,
          0, 2 / (100 - 0), 0, 0,
          0, 0, - 2 / (1 - (- 1)), 0,
          - (200 + 0) / (200 - 0), - (100 + 0) / (100 - 0), - (1 + (- 1)) / (1 - (- 1)), 1] \<and>
   orthoMatrix 0 100 0 200 None None = orthoMatrix 0 100 0 200 (Some (- 1)) (Some 1) \<and>
   orthoMatrix 0 100 0 200 None None =
     Inr [0.01, 0, 0, 0,
          0, 0.02, 0, 0,
          0, 0, - 1, 0,
          - 1, - 1, 0, 1]"
proof -
  have width: "(200::real) \<noteq> 0" and height: "(100::real) \<noteq> 0" and depth: "(1::real) \<noteq> - 1"
    by simp_all
  from orthoMatrix_entries [OF width height depth] width height depth
  show ?thesis by blast
qed

section \<open>The render loop\<close>

lemma renderShape_any_index: "renderShape projM shape i = renderShape projM shape j"
  by (simp add: renderShape_def)

lemma draws_forEach:
  "filter is_draw (forEach (renderShape projM) scene i) =
     concat (map (\<lambda>shape. filter is_draw (renderShape projM shape j)) scene)"
proof (induction scene arbitrary: i)
  case Nil
  show ?case by simp
next
  case (Cons shape rest)
  show ?case
    by (simp add: Cons.IH renderShape_any_index [of projM shape i j])
qed

text \<open>
  Claim C9. Of the calls \<open>renderShape\<close> makes, the one draw call is: a line loop for an
  unfilled shape that is not a line; line segments for a line, filled or not; a triangle fan
  for a filled circle; triangles for a filled triangle; each on the shape's own vertex buffer.
  The draw calls of \<open>renderScene\<close> are those of its shapes, one shape after the other in the
  order of the scene array.
\<close>

theorem render_primitives_in_scene_order:
  "(\<not> shape_filled shape \<and> shape_type shape \<noteq> LINE \<longrightarrow>
      filter is_draw (renderShape projM shape index) = [DrawLineLoop (shape_buffer shape)]) \<and>
   (shape_type shape = LINE \<longrightarrow>
      filter is_draw (renderShape projM shape index) = [DrawLines (shape_buffer shape)]) \<and>
   (shape_filled shape \<and> shape_type shape = CIRCLE \<longrightarrow>
      filter is_draw (renderShape projM shape index) = [DrawTriangleFan (shape_buffer shape)]) \<and>
   (shape_filled shape \<and> shape_type shape = TRIANGLE \<longrightarrow>
      filter is_draw (renderShape projM shape index) = [DrawTriangles (shape_buffer shape)]) \<and>
   filter is_draw (renderScene projM scene time) =
     concat (map (\<lambda>shape. filter is_draw (renderShape projM shape index)) scene)"
proof -
  have "filter is_draw (renderScene projM scene time) =
          concat (map (\<lambda>shape. filter is_draw (renderShape projM shape index)) scene)"
    by (simp add: renderScene_def draws_forEach [of projM scene 0 index])
  then show ?thesis
    by (simp add: renderShape_def)
qed

theorem render_primitives_in_scene_order_witness:
  "(\<not> shape_filled (exampleShape\<lparr>shape_type := CIRCLE, shape_filled := False, shape_buffer := 1\<rparr>) \<and>
    shape_type (exampleShape\<lparr>shape_type := CIRCLE, shape_filled := False, shape_buffer := 1\<rparr>) \<noteq> LINE) \<and>
   filter is_draw (renderShape None
       (exampleShape\<lparr>shape_type := CIRCLE, shape_filled := False, shape_buffer := 1\<rparr>) 0) =
     [DrawLineLoop 1] \<and>
   shape_type (exampleShape\<lparr>shape_type := LINE, shape_buffer := 2\<rparr>) = LINE \<and>
   filter is_draw (renderShape None (exampleShape\<lparr>shape_type := LINE, shape_buffer := 2\<rparr>) 1) =
     [DrawLines 2] \<and>
   (shape_filled (exampleShape\<lparr>shape_type := CIRCLE, shape_buffer := 3\<rparr>) \<and>
    shape_type (exampleShape\<lparr>shape_type := CIRCLE, shape_buffer := 3\<rparr>) = CIRCLE) \<and>
   filter is_draw (renderShape None (exampleShape\<lparr>shape_type := CIRCLE, shape_buffer := 3\<rparr>) 2) =
     [DrawTriangleFan 3] \<and>
   (shape_filled (exampleShape\<lparr>shape_buffer := 4\<rparr>) \<and>
    shape_type (exampleShape\<lparr>shape_buffer := 4\<rparr>) = TRIANGLE) \<and>
   filter is_draw (renderShape None (exampleShape\<lparr>shape_buffer := 4\<rparr>) 3) =
     [DrawTriangles 4] \<and>
   filter is_draw (renderScene None
       [exampleShape\<lparr>shape_type := CIRCLE, shape_filled := False, shape_buffer := 1\<rparr>,
        exampleShape\<lparr>shape_type := LINE, shape_buffer := 2\<rparr>,
        exampleShape\<lparr>shape_type := CIRCLE, shape_buffer := 3\<rparr>,
        exampleShape\<lparr>shape_buffer := 4\<rparr>] 0) =
     [DrawLineLoop 1, DrawLines 2, DrawTriangleFan 3, DrawTriangles 4]"
proof -
  let ?outline = "exampleShape\<lparr>shape_type := CIRCLE, shape_filled := False, shape_buffer := 1\<rparr>"
  let ?line = "exampleShape\<lparr>shape_type := LINE, shape_buffer := 2\<rparr>"
  let ?disc = "exampleShape\<lparr>shape_type := CIRCLE, shape_buffer := 3\<rparr>"
  let ?triangle = "exampleShape\<lparr>shape_buffer := 4\<rparr>"
  let ?scene = "[?outline, ?line, ?disc, ?triangle]"
  have outline: "\<not> shape_filled ?outline \<and> shape_type ?outline \<noteq> LINE"
    and line: "shape_type ?line = LINE"
    and disc: "shape_filled ?disc \<and> shape_type ?disc = CIRCLE"
    and triangle: "shape_filled ?triangle \<and> shape_type ?triangle = TRIANGLE"
    by (simp_all add: exampleShape_def)
  note prims = render_primitives_in_scene_order [of _ None]
  have d1: "filter is_draw (renderShape None ?outline 0) = [DrawLineLoop 1]"
    using prims [of ?outline 0] outline by simp
  have d2: "filter is_draw (renderShape None ?line 0) = [DrawLines 2]"
    using prims [of ?line 0] line by simp
  have d3: "filter is_draw (renderShape None ?disc 0) = [DrawTriangleFan 3]"
    using prims [of ?disc 0] disc by simp
  have d4: "filter is_draw (renderShape None ?triangle 0) = [DrawTriangles 4]"
    using prims [of ?triangle 0] triangle by simp
  have order: "filter is_draw (renderScene None ?scene 0) =
      concat (map (\<lambda>shape. filter is_draw (renderShape None shape 0)) ?scene)"
    using prims [of ?outline 0 ?scene 0] by blast
  have scene: "filter is_draw (renderScene None ?scene 0) =
      [DrawLineLoop 1, DrawLines 2, DrawTriangleFan 3, DrawTriangles 4]"
    by (simp only: order list.map concat.simps d1 d2 d3 d4 append.simps)
  have i1: "renderShape None ?line 1 = renderShape None ?line 0"
    and i2: "renderShape None ?disc 2 = renderShape None ?disc 0"
    and i3: "renderShape None ?triangle 3 = renderShape None ?triangle 0"
    by (rule renderShape_any_index)+
  show ?thesis
    using outline line disc triangle d1 d2 d3 d4 scene
    by (simp only: i1 i2 i3 simp_thms)
qed

end
